theory Spec2Isabelle
  imports Complex_Main "HOL-Library.Char_ord" "HOL-Library.List_Lexorder"
    "HOL-Library.Multiset" "HOL-Library.AList"
begin

section \<open>The CSV table formatter of \<^verbatim>\<open>src/App.jsx\<close>\<close>

text \<open>
  The development embeds the pure core of the component \<^verbatim>\<open>App\<close>: the field tables,
  \<^verbatim>\<open>calculateMedianWeeklyRent\<close>, \<^verbatim>\<open>formatValue\<close>, \<^verbatim>\<open>getRawValue\<close>, \<^verbatim>\<open>sortHeaders\<close>,
  \<^verbatim>\<open>generateTableData\<close> and \<^verbatim>\<open>handleFileUpload\<close>. React state is a record that each
  handler takes and returns; the CSV parser is an input of the upload handler.

  Modelling conventions.
  \<^item> A JavaScript string is a \<^typ>\<open>string\<close>; its characters stand for code units, which is
    exact for ASCII text.
  \<^item> A JavaScript Number is a \<^emph>\<open>jsnum\<close>: NaN, the two infinities, negative zero, or a
    finite value kept as an exact rational. The rounding of every result to a 64-bit
    double is not modelled, so there is neither overflow nor underflow; on integers up to
    \<open>2^53\<close> in magnitude, which a double holds exactly, the two agree.
  \<^item> \<^verbatim>\<open>toLocaleString()\<close> is taken in the \<^verbatim>\<open>en-US\<close> locale with its default options
    (grouping by commas, at most three fraction digits), the convention the source's own
    comments (\<^verbatim>\<open>"$675,000"\<close>, \<^verbatim>\<open>"15,000"\<close>) assume.
  \<^item> An object is the list of its own properties in insertion order; properties inherited
    from \<^verbatim>\<open>Object.prototype\<close> are not modelled. A cell of a row is a string (what the CSV
    parser delivers), a number (the derived weekly rent) or absent.
\<close>

subsection \<open>JavaScript values\<close>

datatype jsnum = NaN | PosInf | NegInf | NegZero | Fin rat

datatype jsval = Undefined | Str string | Num jsnum

datatype js_error = TypeError

type_synonym jsobj = "(string \<times> jsval) list"

fun isNaN :: "jsnum \<Rightarrow> bool" where
  "isNaN NaN = True"
| "isNaN _ = False"

fun is_negative :: "jsnum \<Rightarrow> bool" where
  "is_negative NegInf = True"
| "is_negative NegZero = True"
| "is_negative (Fin q) = (q < 0)"
| "is_negative _ = False"

fun is_infinite :: "jsnum \<Rightarrow> bool" where
  "is_infinite PosInf = True"
| "is_infinite NegInf = True"
| "is_infinite _ = False"

fun magnitude :: "jsnum \<Rightarrow> rat" where
  "magnitude (Fin q) = \<bar>q\<bar>"
| "magnitude _ = 0"

text \<open>A finite result from its sign and magnitude: a zero keeps its sign.\<close>

definition mk_fin :: "bool \<Rightarrow> rat \<Rightarrow> jsnum" where
  "mk_fin neg q = (if q = 0 then (if neg then NegZero else Fin 0)
                   else Fin (if neg then - q else q))"

definition mk_inf :: "bool \<Rightarrow> jsnum" where
  "mk_inf neg = (if neg then NegInf else PosInf)"

text \<open>\<^verbatim>\<open>x * y\<close> and \<^verbatim>\<open>x / y\<close> on Numbers.\<close>

definition js_mul :: "jsnum \<Rightarrow> jsnum \<Rightarrow> jsnum" where
  "js_mul x y =
     (if isNaN x \<or> isNaN y then NaN
      else let neg = (is_negative x \<noteq> is_negative y) in
        if is_infinite x \<or> is_infinite y then
          (if (\<not> is_infinite x \<and> magnitude x = 0) \<or> (\<not> is_infinite y \<and> magnitude y = 0)
           then NaN else mk_inf neg)
        else mk_fin neg (magnitude x * magnitude y))"

definition js_div :: "jsnum \<Rightarrow> jsnum \<Rightarrow> jsnum" where
  "js_div x y =
     (if isNaN x \<or> isNaN y then NaN
      else let neg = (is_negative x \<noteq> is_negative y) in
        if is_infinite x then (if is_infinite y then NaN else mk_inf neg)
        else if is_infinite y then mk_fin neg 0
        else if magnitude y = 0 then (if magnitude x = 0 then NaN else mk_inf neg)
        else mk_fin neg (magnitude x / magnitude y))"

text \<open>\<^verbatim>\<open>x > 0\<close>.\<close>

fun js_gt_zero :: "jsnum \<Rightarrow> bool" where
  "js_gt_zero PosInf = True"
| "js_gt_zero (Fin q) = (0 < q)"
| "js_gt_zero _ = False"

text \<open>\<^verbatim>\<open>Math.round\<close>: the nearest integer, a tie going up; a result of zero keeps the sign
  of a negative argument.\<close>

fun Math_round :: "jsnum \<Rightarrow> jsnum" where
  "Math_round (Fin q) = mk_fin (q < 0) \<bar>of_int \<lfloor>q + 1 / 2\<rfloor>\<bar>"
| "Math_round x = x"

text \<open>Truthiness (\<^verbatim>\<open>!value\<close> is its negation) and \<^verbatim>\<open>x || 0\<close> on a Number.\<close>

fun truthy_num :: "jsnum \<Rightarrow> bool" where
  "truthy_num NaN = False"
| "truthy_num NegZero = False"
| "truthy_num (Fin q) = (q \<noteq> 0)"
| "truthy_num _ = True"

fun truthy :: "jsval \<Rightarrow> bool" where
  "truthy Undefined = False"
| "truthy (Str s) = (s \<noteq> [])"
| "truthy (Num n) = truthy_num n"

definition or_zero :: "jsnum \<Rightarrow> jsnum" where
  "or_zero n = (if truthy_num n then n else Fin 0)"

subsection \<open>Decimal notation\<close>

definition is_digit :: "char \<Rightarrow> bool" where
  "is_digit c = (48 \<le> (of_char c :: int) \<and> (of_char c :: int) \<le> 57)"

definition digit_char :: "int \<Rightarrow> char" where
  "digit_char d = char_of (48 + d)"

definition digit_val :: "char \<Rightarrow> int" where
  "digit_val c = of_char c - 48"

definition dec_val :: "string \<Rightarrow> int" where
  "dec_val ds = foldl (\<lambda>a c. 10 * a + digit_val c) 0 ds"

text \<open>The decimal digits of a non-negative integer.\<close>

function digits_of :: "int \<Rightarrow> string" where
  "digits_of n = (if n < 10 then [digit_char n]
                  else digits_of (n div 10) @ [digit_char (n mod 10)])"
  by pat_completeness auto
termination
  by (relation "measure nat") auto

declare digits_of.simps [simp del]


text \<open>\<open>10^e\<close> for an integer exponent.\<close>

definition pow10 :: "int \<Rightarrow> rat" where
  "pow10 e = (if 0 \<le> e then 10 ^ nat e else 1 / 10 ^ nat (- e))"

text \<open>The integer nearest to a non-negative rational, a tie going up.\<close>

definition round_half_up :: "rat \<Rightarrow> int" where
  "round_half_up q = \<lfloor>q + 1 / 2\<rfloor>"

subsection \<open>\<^verbatim>\<open>Number.prototype.toString\<close>\<close>

text \<open>The \<open>n\<close> with \<open>10^(n-1) \<le> x < 10^n\<close>, for \<open>x > 0\<close>.\<close>

definition dec_exponent :: "rat \<Rightarrow> int" where
  "dec_exponent x =
     (if 1 \<le> x then int (length (digits_of \<lfloor>x\<rfloor>))
      else 1 - int (length (digits_of (\<lceil>1 / x\<rceil> - 1))))"

definition strip_zeros :: "string \<Rightarrow> string" where
  "strip_zeros ds = rev (dropWhile (\<lambda>c. c = CHR ''0'') (rev ds))"

text \<open>
  The digits \<open>s\<close> and the exponent \<open>n\<close> of the notation of \<open>x > 0\<close>: as few digits as
  give \<open>x\<close> back, seventeen at most (a double never needs more; an exact value that
  does is rounded there).
\<close>

definition sig_digits :: "rat \<Rightarrow> string \<times> int" where
  "sig_digits x =
     (let n = dec_exponent x;
          s = round_half_up (x * pow10 (17 - n))
      in if 10 ^ 17 \<le> s then (strip_zeros (digits_of (s div 10)), n + 1)
         else (strip_zeros (digits_of s), n))"

definition pos_toString :: "rat \<Rightarrow> string" where
  "pos_toString x =
     (let (ds, n) = sig_digits x; k = int (length ds) in
      if k \<le> n \<and> n \<le> 21 then ds @ replicate (nat (n - k)) CHR ''0''
      else if 0 < n \<and> n \<le> 21 then take (nat n) ds @ ''.'' @ drop (nat n) ds
      else if - 6 < n \<and> n \<le> 0 then ''0.'' @ replicate (nat (- n)) CHR ''0'' @ ds
      else (if k = 1 then ds else take 1 ds @ ''.'' @ drop 1 ds)
           @ ''e'' @ (if n - 1 < 0 then ''-'' else ''+'') @ digits_of \<bar>n - 1\<bar>)"

fun num_toString :: "jsnum \<Rightarrow> string" where
  "num_toString NaN = ''NaN''"
| "num_toString PosInf = ''Infinity''"
| "num_toString NegInf = ''-Infinity''"
| "num_toString NegZero = ''0''"
| "num_toString (Fin q) =
     (if q = 0 then ''0'' else (if q < 0 then ''-'' else []) @ pos_toString \<bar>q\<bar>)"

text \<open>The abstract operation \<^verbatim>\<open>ToString\<close>, which never fails, and the method call
  \<^verbatim>\<open>value.toString()\<close>, which throws on \<^verbatim>\<open>undefined\<close>.\<close>

fun ToString :: "jsval \<Rightarrow> string" where
  "ToString Undefined = ''undefined''"
| "ToString (Str s) = s"
| "ToString (Num n) = num_toString n"

fun toString :: "jsval \<Rightarrow> js_error + string" where
  "toString Undefined = Inl TypeError"
| "toString v = Inr (ToString v)"

subsection \<open>\<^verbatim>\<open>parseFloat\<close>\<close>

definition is_ws :: "char \<Rightarrow> bool" where
  "is_ws c = ((of_char c :: int) \<in> {9, 10, 11, 12, 13, 32})"

text \<open>An optional sign: whether it is a minus, and the rest.\<close>

fun parse_sign :: "string \<Rightarrow> bool \<times> string" where
  "parse_sign [] = (False, [])"
| "parse_sign (c # r) =
     (if c = CHR ''-'' then (True, r) else if c = CHR ''+'' then (False, r)
      else (False, c # r))"

text \<open>The exponent part, when one follows: \<^verbatim>\<open>e\<close> or \<^verbatim>\<open>E\<close>, an optional sign and at least
  one digit. Anything else contributes nothing.\<close>

fun parse_exponent :: "string \<Rightarrow> int" where
  "parse_exponent [] = 0"
| "parse_exponent (c # r) =
     (if c = CHR ''e'' \<or> c = CHR ''E'' then
        (let (neg, u) = parse_sign r; ds = takeWhile is_digit u in
         if ds = [] then 0
         else if neg then - dec_val ds else dec_val ds)
      else 0)"

text \<open>The fraction part, when a dot follows: its digits and the rest.\<close>

fun parse_fraction :: "string \<Rightarrow> string \<times> string" where
  "parse_fraction [] = ([], [])"
| "parse_fraction (c # r) =
     (if c = CHR ''.'' then (takeWhile is_digit r, dropWhile is_digit r)
      else ([], c # r))"

text \<open>
  \<^verbatim>\<open>parseFloat\<close> on a string: leading white space is skipped, the longest prefix that is
  a decimal literal is read, and NaN is the result when there is none.
\<close>

definition parseFloat_str :: "string \<Rightarrow> jsnum" where
  "parseFloat_str s =
     (let (neg, u) = parse_sign (dropWhile is_ws s) in
      if take 8 u = ''Infinity'' then mk_inf neg
      else
        let ip = takeWhile is_digit u;
            (fp, r) = parse_fraction (dropWhile is_digit u)
        in if ip = [] \<and> fp = [] then NaN
           else mk_fin neg (of_int (dec_val (ip @ fp))
                            * pow10 (parse_exponent r - int (length fp))))"

definition parseFloat :: "jsval \<Rightarrow> jsnum" where
  "parseFloat v = parseFloat_str (ToString v)"

subsection \<open>\<^verbatim>\<open>toFixed\<close> and \<^verbatim>\<open>toLocaleString\<close>\<close>

text \<open>The digits of \<open>n\<close> with a dot before the last \<open>f\<close> of them, padded with zeros.\<close>

definition fixed_digits :: "int \<Rightarrow> nat \<Rightarrow> string" where
  "fixed_digits n f =
     (let m = digits_of n;
          m' = (if length m \<le> f then replicate (f + 1 - length m) CHR ''0'' @ m else m)
      in if f = 0 then m'
         else take (length m' - f) m' @ ''.'' @ drop (length m' - f) m')"

fun toFixed :: "jsnum \<Rightarrow> nat \<Rightarrow> string" where
  "toFixed (Fin q) f =
     (if 10 ^ 21 \<le> \<bar>q\<bar> then num_toString (Fin q)
      else (if q < 0 then ''-'' else [])
           @ fixed_digits (round_half_up (\<bar>q\<bar> * 10 ^ f)) f)"
| "toFixed NegZero f = fixed_digits 0 f"
| "toFixed x f = num_toString x"

text \<open>Commas between groups of three digits, counted from the right.\<close>

fun group3 :: "string \<Rightarrow> string" where
  "group3 ds = (if length ds \<le> 3 then ds
                else group3 (take (length ds - 3) ds) @ '','' @ drop (length ds - 3) ds)"

declare group3.simps [simp del]

text \<open>The infinity sign U+221E, as its three bytes.\<close>

definition infinity_sign :: string where
  "infinity_sign = [char_of (226 :: nat), char_of (136 :: nat), char_of (158 :: nat)]"

text \<open>A non-negative finite value in \<^verbatim>\<open>en-US\<close>: rounded to three fraction digits, the
  integer part grouped, the fraction without trailing zeros.\<close>

definition locale_digits :: "rat \<Rightarrow> string" where
  "locale_digits q =
     (let n = round_half_up (q * 1000);
          fr = strip_zeros (drop 1 (digits_of (1000 + n mod 1000)))
      in group3 (digits_of (n div 1000)) @ (if fr = [] then [] else ''.'' @ fr))"

fun toLocaleString :: "jsnum \<Rightarrow> string" where
  "toLocaleString NaN = ''NaN''"
| "toLocaleString PosInf = infinity_sign"
| "toLocaleString NegInf = ''-'' @ infinity_sign"
| "toLocaleString NegZero = ''-0''"
| "toLocaleString (Fin q) = (if q < 0 then ''-'' else []) @ locale_digits \<bar>q\<bar>"

subsection \<open>Objects\<close>

text \<open>\<^verbatim>\<open>obj[k]\<close>: the value of the property, \<^verbatim>\<open>undefined\<close> when there is none.\<close>

definition lookup :: "jsobj \<Rightarrow> string \<Rightarrow> jsval" where
  "lookup obj k = (case map_of obj k of None \<Rightarrow> Undefined | Some v \<Rightarrow> v)"

text \<open>\<^verbatim>\<open>obj[k] = v\<close>: an existing property keeps its place, a new one goes last.\<close>

definition obj_set :: "(string \<times> 'v) list \<Rightarrow> string \<Rightarrow> 'v \<Rightarrow> (string \<times> 'v) list" where
  "obj_set obj k v = AList.update k v obj"

text \<open>
  An array index is the canonical decimal notation of an integer below \<open>2^32 - 1\<close>.
  \<^verbatim>\<open>Object.keys\<close> lists the array indices first, in ascending numeric order, and then the
  other keys in insertion order.
\<close>

definition is_array_index :: "string \<Rightarrow> bool" where
  "is_array_index k =
     (k \<noteq> [] \<and> list_all is_digit k \<and> (k = ''0'' \<or> hd k \<noteq> CHR ''0'')
      \<and> dec_val k < 2 ^ 32 - 1)"

definition Object_keys :: "(string \<times> 'v) list \<Rightarrow> string list" where
  "Object_keys obj =
     sort_key dec_val (filter is_array_index (map fst obj))
     @ filter (\<lambda>k. \<not> is_array_index k) (map fst obj)"

text \<open>The copy \<^verbatim>\<open>{...obj}\<close>: the own properties, in the order of \<^verbatim>\<open>Object.keys\<close>.\<close>

definition obj_spread :: "jsobj \<Rightarrow> jsobj" where
  "obj_spread obj = map (\<lambda>k. (k, lookup obj k)) (Object_keys obj)"

subsection \<open>The field tables\<close>

definition priorityColumns :: "string list" where
  "priorityColumns =
    [''Suburb'',
     ''State'',
     ''Owner Occupier'',
     ''Vacancy Rate'',
     ''Growth (12MTHS)'',
     ''5-Year Sale Price Growth'',
     ''10-Year Sale Price Growth'',
     ''DOM'',
     ''Median Weekly Rent'',
     ''Suburb $ Median'',
     ''Rental Yield'']"

definition percentageFields :: "string list" where
  "percentageFields =
    [''Growth (12MTHS)'',
     ''Growth (10Y Ave)'',
     ''Rental Yield'',
     ''Vacancy Rate'',
     ''Owner Occupier'',
     ''Social Housing'',
     ''Market Absorption'',
     ''IQR % Median'',
     ''Build. Approvals'',
     ''Pop. Growth (5Y)'',
     ''SA2 1-Year Population Growth'',
     ''SA2 3-Year Population Growth'',
     ''SA2 5-Year Population Growth'',
     ''SA2 10-Year Population Growth'',
     ''SA3 1-Year Population Growth'',
     ''SA3 3-Year Population Growth'',
     ''SA3 5-Year Population Growth'',
     ''SA3 10-Year Population Growth'',
     ''3-Year Median Sale Price CAGR'',
     ''5-Year Median Sale Price CAGR'',
     ''10-Year Median Sale Price CAGR'',
     ''3-Year Sale Price Growth'',
     ''5-Year Sale Price Growth'',
     ''10-Year Sale Price Growth'',
     ''12-Month Sale Price Growth'']"

definition currencyFields :: "string list" where
  "currencyFields =
    [''Suburb $ Median'',
     ''Median Income'',
     ''Median Weekly Rent'']"

definition numberFields :: "string list" where
  "numberFields =
    [''Population'',
     ''Property Count'',
     ''Total Property Count'',
     ''SA2 Estimated Resident Population'',
     ''Sales Volume'',
     ''Build. Approvals'']"

subsection \<open>The derived column\<close>

definition calculateMedianWeeklyRent :: "jsobj \<Rightarrow> jsnum" where
  "calculateMedianWeeklyRent row =
     (let propertyPrice = or_zero (parseFloat (lookup row ''Suburb $ Median''));
          rentalYield = or_zero (parseFloat (lookup row ''Rental Yield''))
      in if js_gt_zero propertyPrice \<and> js_gt_zero rentalYield then
           (let annualRent = js_mul propertyPrice rentalYield;
                weeklyRent = js_div annualRent (Fin 52)
            in Math_round weeklyRent)
         else Fin 0)"

subsection \<open>Formatting a value, and reading it back for the spreadsheet\<close>

definition formatValue :: "jsval \<Rightarrow> string \<Rightarrow> jsval" where
  "formatValue value fieldName =
     (if \<not> truthy value \<or> value = Str [] then Str []
      else
        let numValue = parseFloat value in
        if isNaN numValue then value
        else if fieldName \<in> set percentageFields then
          Str (toFixed (js_mul numValue (Fin 100)) 2 @ ''%'')
        else if fieldName \<in> set currencyFields then
          (if fieldName = ''Median Weekly Rent'' then Str (''$'' @ toLocaleString numValue)
           else Str (''$'' @ toLocaleString numValue))
        else if fieldName \<in> set numberFields then Str (toLocaleString numValue)
        else value)"

text \<open>
  \<^verbatim>\<open>replace(/[$,]/g, '')\<close> and \<^verbatim>\<open>replace(/,/g, '')\<close> remove every occurrence;
  \<^verbatim>\<open>replace('%', '')\<close>, with a string pattern, removes the first one only.
\<close>

definition getRawValue :: "jsval \<Rightarrow> string \<Rightarrow> string \<Rightarrow> js_error + jsval" where
  "getRawValue value fieldName originalColumn =
     (if \<not> truthy value \<or> value = Str [] then Inr (Str [])
      else if originalColumn = ''Median Weekly Rent'' then
        (case toString value of
           Inl e \<Rightarrow> Inl e
         | Inr str \<Rightarrow>
             let currencyStr = filter (\<lambda>c. c \<noteq> CHR ''$'' \<and> c \<noteq> CHR '','') str;
                 currencyNum = parseFloat (Str currencyStr)
             in Inr (Num (if isNaN currencyNum then Fin 0 else currencyNum)))
      else if originalColumn \<in> set percentageFields then
        (case toString value of
           Inl e \<Rightarrow> Inl e
         | Inr str \<Rightarrow>
             let percentStr = remove1 CHR ''%'' str;
                 percentNum = parseFloat (Str percentStr)
             in Inr (Num (if isNaN percentNum then Fin 0 else js_div percentNum (Fin 100))))
      else if originalColumn \<in> set currencyFields then
        (case toString value of
           Inl e \<Rightarrow> Inl e
         | Inr str \<Rightarrow>
             let currencyStr = filter (\<lambda>c. c \<noteq> CHR ''$'' \<and> c \<noteq> CHR '','') str;
                 currencyNum = parseFloat (Str currencyStr)
             in Inr (Num (if isNaN currencyNum then Fin 0 else currencyNum)))
      else if originalColumn \<in> set numberFields then
        (case toString value of
           Inl e \<Rightarrow> Inl e
         | Inr str \<Rightarrow>
             let numberStr = filter (\<lambda>c. c \<noteq> CHR '','') str;
                 numberNum = parseFloat (Str numberStr)
             in Inr (Num (if isNaN numberNum then Fin 0 else numberNum)))
      else
        let numValue = parseFloat value in
        Inr (if isNaN numValue then value else Num numValue))"

subsection \<open>Ordering the headers\<close>

text \<open>\<^verbatim>\<open>others.sort()\<close>, without a comparator, orders strings by their code units.\<close>

definition sortHeaders :: "string list \<Rightarrow> string list" where
  "sortHeaders hs =
     (let priority = filter (\<lambda>h. h \<in> set priorityColumns) hs;
          others = filter (\<lambda>h. h \<notin> set priorityColumns) hs;
          sortedPriority = filter (\<lambda>col. col \<in> set priority) priorityColumns
      in sortedPriority @ sort others)"

subsection \<open>The session state and the projection\<close>

record app_state =
  csvData :: "jsobj list option"
  headers :: "string list"
  selectedColumns :: "string list"
  columnRenames :: "(string \<times> string) list"
  tableData :: "jsobj list"
  fileName :: string
  console_error :: "(string \<times> string) list"

text \<open>The state of a fresh session: the initial values of the \<^verbatim>\<open>useState\<close> calls.\<close>

definition initial_state :: app_state where
  "initial_state =
     \<lparr>csvData = None, headers = [], selectedColumns = [], columnRenames = [],
      tableData = [], fileName = [], console_error = []\<rparr>"

text \<open>\<^verbatim>\<open>renames[col] || col\<close>: the column's own name stands in for a missing or empty
  entry.\<close>

definition renamedCol :: "(string \<times> string) list \<Rightarrow> string \<Rightarrow> string" where
  "renamedCol renames col =
     (case map_of renames col of
        None \<Rightarrow> col
      | Some n \<Rightarrow> if n \<noteq> [] then n else col)"

text \<open>The body of \<^verbatim>\<open>columns.forEach\<close>, and the row that \<^verbatim>\<open>data.map\<close> builds with it.\<close>

definition addColumn :: "(string \<times> string) list \<Rightarrow> jsobj \<Rightarrow> jsobj \<Rightarrow> string \<Rightarrow> jsobj" where
  "addColumn renames row filtered col =
     (if lookup row col \<noteq> Undefined then
        obj_set filtered (renamedCol renames col) (formatValue (lookup row col) col)
      else filtered)"

definition filteredRow :: "(string \<times> string) list \<Rightarrow> string list \<Rightarrow> jsobj \<Rightarrow> jsobj" where
  "filteredRow renames columns row = foldl (addColumn renames row) [] columns"

definition generateTableData ::
  "app_state \<Rightarrow> jsobj list \<Rightarrow> string list \<Rightarrow> (string \<times> string) list \<Rightarrow> app_state" where
  "generateTableData s data columns renames =
     s\<lparr>tableData := map (filteredRow renames columns) data\<rparr>"

subsection \<open>Uploading a file\<close>

text \<open>
  What \<^verbatim>\<open>Papa.parse\<close> does with the file: it calls \<^verbatim>\<open>complete\<close> with the rows, or
  \<^verbatim>\<open>error\<close> with an error. The handler is called without a file to reset the session.
\<close>

datatype papa_outcome = Complete "jsobj list" | Error string

datatype upload = NoFile | File string papa_outcome

definition complete :: "app_state \<Rightarrow> jsobj list \<Rightarrow> app_state" where
  "complete s data =
     (let dataWithCalculatedFields =
            map (\<lambda>row. obj_set (obj_spread row) ''Median Weekly Rent''
                          (Num (calculateMedianWeeklyRent row))) data;
          s1 = s\<lparr>csvData := Some dataWithCalculatedFields\<rparr>;
          csvHeaders = Object_keys (case data of [] \<Rightarrow> [] | row # _ \<Rightarrow> row);
          allHeaders = csvHeaders @ [''Median Weekly Rent''];
          sortedHeaders = sortHeaders allHeaders;
          s2 = s1\<lparr>headers := sortedHeaders\<rparr>;
          defaultSelectedColumns = filter (\<lambda>col. col \<in> set sortedHeaders) priorityColumns;
          s3 = s2\<lparr>selectedColumns := defaultSelectedColumns\<rparr>;
          initialRenames = foldl (\<lambda>r header. obj_set r header header) [] sortedHeaders;
          s4 = s3\<lparr>columnRenames := initialRenames\<rparr>
      in generateTableData s4 dataWithCalculatedFields defaultSelectedColumns initialRenames)"

definition handleFileUpload :: "app_state \<Rightarrow> upload \<Rightarrow> app_state" where
  "handleFileUpload s u =
     (case u of
        NoFile \<Rightarrow>
          s\<lparr>csvData := None, headers := [], selectedColumns := [], columnRenames := [],
            tableData := [], fileName := []\<rparr>
      | File name outcome \<Rightarrow>
          (let s1 = s\<lparr>fileName := name\<rparr> in
           case outcome of
             Complete data \<Rightarrow> complete s1 data
           | Error e \<Rightarrow>
               s1\<lparr>console_error := console_error s1 @ [(''Error parsing CSV:'', e)]\<rparr>))"

subsection \<open>The weekly rent as the specification words it\<close>



subsection \<open>The text that is read back\<close>

text \<open>What \<^const>\<open>getRawValue\<close> hands to \<^verbatim>\<open>parseFloat\<close> for a display text, by the branch
  that the original column selects.\<close>

definition parsed_text :: "string \<Rightarrow> string \<Rightarrow> string" where
  "parsed_text originalColumn str =
     (if originalColumn = ''Median Weekly Rent'' then
        filter (\<lambda>c. c \<noteq> CHR ''$'' \<and> c \<noteq> CHR '','') str
      else if originalColumn \<in> set percentageFields then remove1 CHR ''%'' str
      else if originalColumn \<in> set currencyFields then
        filter (\<lambda>c. c \<noteq> CHR ''$'' \<and> c \<noteq> CHR '','') str
      else if originalColumn \<in> set numberFields then filter (\<lambda>c. c \<noteq> CHR '','') str
      else str)"

section \<open>Properties\<close>

subsection \<open>Basic facts\<close>



lemma falsy_formatValue: "\<not> truthy v \<Longrightarrow> formatValue v f = Str []"
  by (simp add: formatValue_def)

lemma falsy_getRawValue: "\<not> truthy v \<Longrightarrow> getRawValue v h oc = Inr (Str [])"
  by (simp add: getRawValue_def)

subsection \<open>Percentages\<close>



subsection \<open>The weekly rent\<close>




subsection \<open>Empty cells\<close>

text \<open>
  Claim C10. A falsy raw value (the empty string, a missing value, the number 0 that the
  weekly rent calculation returns) is shown as the empty string in a column of any kind,
  and reading either the raw value or the shown one back for the spreadsheet gives the
  empty string again, not a number.
\<close>

theorem falsy_value_is_empty_cell:
  assumes "\<not> truthy v"
  shows "formatValue v f = Str []
       \<and> getRawValue v h oc = Inr (Str [])
       \<and> getRawValue (formatValue v f) h oc = Inr (Str [])"
  using assms by (simp add: falsy_formatValue falsy_getRawValue)

theorem falsy_value_is_empty_cell_witness:
  "\<not> truthy (Num (calculateMedianWeeklyRent
        [(''Suburb $ Median'', Str ''0''), (''Rental Yield'', Str ''0.04'')]))
   \<and> (formatValue (Num (calculateMedianWeeklyRent
        [(''Suburb $ Median'', Str ''0''), (''Rental Yield'', Str ''0.04'')]))
        ''Median Weekly Rent'' = Str []
     \<and> getRawValue (Num (calculateMedianWeeklyRent
        [(''Suburb $ Median'', Str ''0''), (''Rental Yield'', Str ''0.04'')]))
        ''Median Weekly Rent'' ''Median Weekly Rent'' = Inr (Str [])
     \<and> getRawValue (formatValue (Num (calculateMedianWeeklyRent
        [(''Suburb $ Median'', Str ''0''), (''Rental Yield'', Str ''0.04'')]))
        ''Median Weekly Rent'') ''Median Weekly Rent'' ''Median Weekly Rent'' = Inr (Str []))"
proof -
  have z: "\<not> truthy (Num (calculateMedianWeeklyRent
        [(''Suburb $ Median'', Str ''0''), (''Rental Yield'', Str ''0.04'')]))"
    by code_simp
  show ?thesis
    by (rule conjI [OF z falsy_value_is_empty_cell [OF z]])
qed

subsection \<open>A file that cannot be read\<close>



subsection \<open>The order of the headers\<close>

text \<open>
  Claim C5. The ordered headers are the priority columns that occur among the headers,
  in the order of the priority list, followed by the other headers in ascending
  lexicographic order; the priority list has eleven entries, and one that does not occur
  is left out.
\<close>

theorem sortHeaders_order:
  "length priorityColumns = 11
   \<and> (\<exists>rest. sortHeaders hs = filter (\<lambda>p. p \<in> set hs) priorityColumns @ rest
        \<and> sorted rest
        \<and> mset rest = mset (filter (\<lambda>h. h \<notin> set priorityColumns) hs))"
proof -
  have "length priorityColumns = 11"
    by (simp add: priorityColumns_def)
  moreover have "filter (\<lambda>col. col \<in> set (filter (\<lambda>h. h \<in> set priorityColumns) hs))
       priorityColumns = filter (\<lambda>p. p \<in> set hs) priorityColumns"
    by (rule filter_cong) auto
  ultimately show ?thesis
    by (simp add: sortHeaders_def Let_def)
qed

lemma sortHeaders_example:
  "sortHeaders [''Zeta'', ''Suburb'', ''State'', ''Alpha'']
     = [''Suburb'', ''State'', ''Alpha'', ''Zeta'']"
  by code_simp

subsection \<open>Decimal digits, written and read\<close>







subsection \<open>Integers in the locale's notation\<close>












lemma truthy_toString: "truthy v \<Longrightarrow> toString v = Inr (ToString v) \<and> v \<noteq> Str []"
  by (cases v) auto

subsection \<open>Formatting an integer and reading it back\<close>






subsection \<open>Reading a display value back\<close>

text \<open>
  Claim C6, as amended. For a truthy display value (a non-empty string or a non-zero
  number) and a column in the percentage, currency or count table, \<^const>\<open>getRawValue\<close>
  does not throw and returns a number that is not NaN, the number 0 when the text it
  reads does not parse. An empty display value is returned as the empty string, whatever
  the column.
\<close>

lemma not_NaN_div: "\<not> isNaN p \<Longrightarrow> \<not> isNaN (js_div p (Fin 100))"
  by (cases p) (simp_all add: js_div_def mk_fin_def mk_inf_def Let_def)

theorem getRawValue_number:
  assumes "truthy v"
    and "oc \<in> set percentageFields \<union> set currencyFields \<union> set numberFields"
  shows "\<exists>x. getRawValue v h oc = Inr (Num x) \<and> \<not> isNaN x
           \<and> (isNaN (parseFloat (Str (parsed_text oc (ToString v)))) \<longrightarrow> x = Fin 0)"
  using assms(2) truthy_toString [OF assms(1)] assms(1)
  by (auto simp: getRawValue_def parsed_text_def parseFloat_def Let_def not_NaN_div)


theorem getRawValue_number_witness:
  "truthy (Str ''N/A'')
   \<and> ''Rental Yield'' \<in> set percentageFields \<union> set currencyFields \<union> set numberFields
   \<and> getRawValue (Str ''N/A'') ''Yield'' ''Rental Yield'' = Inr (Num (Fin 0))"
proof -
  have t: "truthy (Str ''N/A'')"
    by simp
  have c: "''Rental Yield'' \<in> set percentageFields \<union> set currencyFields \<union> set numberFields"
    by (simp add: percentageFields_def)
  have n: "isNaN (parseFloat (Str (parsed_text ''Rental Yield'' (ToString (Str ''N/A'')))))"
    by code_simp
  from getRawValue_number [OF t c, of "''Yield''"] n
  have "getRawValue (Str ''N/A'') ''Yield'' ''Rental Yield'' = Inr (Num (Fin 0))"
    by auto
  with t c show ?thesis
    by (intro conjI)
qed

text \<open>The empty display value of a percentage column is not read back as a number.\<close>

theorem getRawValue_empty_not_number:
  "getRawValue (Str []) ''Rental Yield'' ''Rental Yield'' = Inr (Str [])
   \<and> getRawValue (Str []) ''Rental Yield'' ''Rental Yield'' \<noteq> Inr (Num (Fin 0))"
  by (simp add: getRawValue_def)

subsection \<open>Objects and their keys\<close>




lemma distinct_Object_keys: "distinct (map fst obj) \<Longrightarrow> distinct (Object_keys obj)"
  by (auto simp: Object_keys_def)

subsection \<open>The headers after an upload\<close>

lemma distinct_priorityColumns: "distinct priorityColumns"
  by (simp add: priorityColumns_def)

lemma rent_is_priority: "''Median Weekly Rent'' \<in> set priorityColumns"
  by (simp add: priorityColumns_def)

lemma distinct_sortHeaders:
  "distinct (filter (\<lambda>h. h \<notin> set priorityColumns) hs) \<Longrightarrow> distinct (sortHeaders hs)"
  using distinct_priorityColumns by (auto simp: sortHeaders_def Let_def)

lemma headers_complete:
  "headers (handleFileUpload s (File name (Complete data)))
     = sortHeaders (Object_keys (case data of [] \<Rightarrow> [] | row # _ \<Rightarrow> row)
                    @ [''Median Weekly Rent''])"
  by (simp add: handleFileUpload_def complete_def Let_def generateTableData_def)

text \<open>
  Claim C8. After a file has been parsed, the header sequence contains the derived
  column \<^verbatim>\<open>Median Weekly Rent\<close> and no name twice, also when the file has a column of that
  name itself. The rows are objects: within a row, a key occurs once.
\<close>

theorem headers_after_upload:
  assumes "\<forall>row \<in> set data. distinct (map fst row)"
  shows "''Median Weekly Rent'' \<in> set (headers (handleFileUpload s (File name (Complete data))))
       \<and> distinct (headers (handleFileUpload s (File name (Complete data))))"
proof -
  let ?first = "case data of [] \<Rightarrow> [] | row # _ \<Rightarrow> row"
  have "distinct (map fst ?first)"
    using assms by (cases data) auto
  then have "distinct (Object_keys ?first)"
    by (rule distinct_Object_keys)
  then have "distinct (filter (\<lambda>h. h \<notin> set priorityColumns)
               (Object_keys ?first @ [''Median Weekly Rent'']))"
    using rent_is_priority by simp
  then have "distinct (sortHeaders (Object_keys ?first @ [''Median Weekly Rent'']))"
    by (rule distinct_sortHeaders)
  moreover have "''Median Weekly Rent''
      \<in> set (sortHeaders (Object_keys ?first @ [''Median Weekly Rent'']))"
    using rent_is_priority by (simp add: sortHeaders_def Let_def)
  ultimately show ?thesis
    by (simp only: headers_complete)
qed

theorem headers_after_upload_witness:
  "headers (handleFileUpload initial_state (File ''suburbs.csv'' (Complete
      [[(''Zone'', Str ''R1''), (''Median Weekly Rent'', Str ''700''), (''Suburb'', Str ''Kew'')]])))
     = [''Suburb'', ''Median Weekly Rent'', ''Zone'']
   \<and> (''Median Weekly Rent'' \<in> set (headers (handleFileUpload initial_state
        (File ''suburbs.csv'' (Complete
          [[(''Zone'', Str ''R1''), (''Median Weekly Rent'', Str ''700''),
            (''Suburb'', Str ''Kew'')]]))))
     \<and> distinct (headers (handleFileUpload initial_state
        (File ''suburbs.csv'' (Complete
          [[(''Zone'', Str ''R1''), (''Median Weekly Rent'', Str ''700''),
            (''Suburb'', Str ''Kew'')]])))))"
proof -
  have d: "\<forall>row \<in> set [[(''Zone'', Str ''R1''), (''Median Weekly Rent'', Str ''700''),
      (''Suburb'', Str ''Kew'')]]. distinct (map fst row)"
    by simp
  have h: "sortHeaders (Object_keys [(''Zone'', Str ''R1''), (''Median Weekly Rent'', Str ''700''),
      (''Suburb'', Str ''Kew'')] @ [''Median Weekly Rent''])
     = [''Suburb'', ''Median Weekly Rent'', ''Zone'']"
    by code_simp
  have "headers (handleFileUpload initial_state (File ''suburbs.csv'' (Complete
      [[(''Zone'', Str ''R1''), (''Median Weekly Rent'', Str ''700''), (''Suburb'', Str ''Kew'')]])))
     = [''Suburb'', ''Median Weekly Rent'', ''Zone'']"
    by (simp add: headers_complete h)
  then show ?thesis
    by (rule conjI [OF _ headers_after_upload [OF d]])
qed

subsection \<open>The projection\<close>












text \<open>Display names that are array indices are listed first, in numeric order.\<close>

lemma index_keys_come_first:
  "Object_keys (tableData (generateTableData initial_state
      [[(''Suburb'', Str ''Kew''), (''State'', Str ''VIC'')]]
      [''Suburb'', ''State'']
      [(''Suburb'', ''2''), (''State'', ''1'')]) ! 0) = [''1'', ''2'']"
  by code_simp



end
